theory Spec2Isabelle
  imports Complex_Main "HOL-Library.Word"
begin

section \<open>Python and numpy building blocks\<close>

text \<open>
  The loaders of \<^verbatim>\<open>tensorlight/datasets/ms_pacman.py\<close> and
  \<^verbatim>\<open>tensorlight/datasets/ucf101.py\<close> are embedded as pure functions. Exceptions
  are values of a sum type, the two global random generators (Python's \<^verbatim>\<open>random\<close>
  and \<^verbatim>\<open>numpy.random\<close>) are explicit streams of raw draws that are threaded
  through, and the files on disk are a partial map from paths to decoded arrays.
\<close>

datatype error = ValueError | IndexError | IOError | AssertionError | ZeroDivisionError

text \<open>
  A decoded frame is a numpy array of shape \<open>[H, W, C]\<close> and dtype uint8: rows, columns,
  channels. numpy arrays are rectangular; \<open>frame_shape_ok\<close> says that a nested list is.
\<close>

type_synonym frame = "8 word list list list"

definition frame_shape_ok :: "nat \<Rightarrow> nat \<Rightarrow> nat \<Rightarrow> 'a list list list \<Rightarrow> bool" where
  "frame_shape_ok h w c f \<longleftrightarrow>
     length f = h \<and> list_all (\<lambda>row. length row = w \<and> list_all (\<lambda>px. length px = c) row) f"

text \<open>
  A slice bound of Python: a negative bound counts from the end, and every bound is
  clamped into \<open>[0, len]\<close>. \<open>py_slice xs lo hi\<close> is \<^verbatim>\<open>xs[lo:hi]\<close>, with
  \<open>None\<close> for an omitted bound.
\<close>

definition slice_bound :: "nat \<Rightarrow> int \<Rightarrow> nat" where
  "slice_bound n i = (if i < 0 then nat (max 0 (int n + i)) else min n (nat i))"

definition py_slice :: "'a list \<Rightarrow> int option \<Rightarrow> int option \<Rightarrow> 'a list" where
  "py_slice xs lo hi =
     (let n = length xs;
          a = (case lo of None \<Rightarrow> 0 | Some i \<Rightarrow> slice_bound n i);
          b = (case hi of None \<Rightarrow> n | Some j \<Rightarrow> slice_bound n j)
      in take (b - a) (drop a xs))"

text \<open>\<^verbatim>\<open>xs[i]\<close> on a list: IndexError out of range, negative indices from the end.\<close>

definition py_index :: "'a list \<Rightarrow> int \<Rightarrow> error + 'a" where
  "py_index xs i =
     (if 0 \<le> i \<and> i < int (length xs) then Inr (xs ! nat i)
      else if i < 0 \<and> - int (length xs) \<le> i then Inr (xs ! nat (int (length xs) + i))
      else Inl IndexError)"

text \<open>
  A random generator is the stream of its future raw draws. \<^verbatim>\<open>random.randint(a, b)\<close>
  returns an integer of \<open>[a, b]\<close> and raises ValueError on an empty range;
  \<^verbatim>\<open>random.random()\<close> returns a multiple of \<open>2^-53\<close> in \<open>[0, 1)\<close>.
\<close>

type_synonym rng = "nat \<Rightarrow> nat"

definition randint :: "int \<Rightarrow> int \<Rightarrow> rng \<Rightarrow> error + (int \<times> rng)" where
  "randint a b g =
     (if b < a then Inl ValueError else Inr (a + int (g 0) mod (b - a + 1), g \<circ> Suc))"

definition random_random :: "rng \<Rightarrow> rat \<times> rng" where
  "random_random g = (of_nat (g 0 mod 2 ^ 53) / 2 ^ 53, g \<circ> Suc)"

section \<open>The motion filter\<close>

text \<open>
  \<^verbatim>\<open>frames / 127.5\<close> is true division of a uint8 array, elementwise, and the sum of
  squared differences is taken over the whole frame. The embedding computes with exact
  rationals where numpy computes with float64.
\<close>

definition MIN_L2_DIFF_PER_FRAME :: rat where
  "MIN_L2_DIFF_PER_FRAME = 25"

definition scale_frames :: "frame list \<Rightarrow> rat list list list list" where
  "scale_frames frames = map (map (map (map (\<lambda>p. of_nat (unat p) / (255 / 2))))) frames"

definition sum_square_diff :: "rat list list list \<Rightarrow> rat list list list \<Rightarrow> rat" where
  "sum_square_diff a b =
     (\<Sum>(ra, rb) \<leftarrow> zip a b. \<Sum>(pa, pb) \<leftarrow> zip ra rb. \<Sum>(x, y) \<leftarrow> zip pa pb. (x - y)\<^sup>2)"

text \<open>
  The loop of \<^verbatim>\<open>ms_pacman.enough_l2_movement\<close>, over the indices
  \<^verbatim>\<open>reversed(xrange(n - 1))\<close> that are still to come, with the running \<open>diff\<close>.
\<close>

fun ms_pacman_l2_loop :: "rat list list list list \<Rightarrow> nat \<Rightarrow> nat list \<Rightarrow> rat \<Rightarrow> bool" where
  "ms_pacman_l2_loop fs n [] diff = False"
| "ms_pacman_l2_loop fs n (i # rest) diff =
     (let diff' = diff + sum_square_diff (fs ! i) (fs ! (i + 1)) in
      if int i = int n - 2 \<and> diff' = 0 then False
      else if diff' \<ge> MIN_L2_DIFF_PER_FRAME * of_nat n then True
      else ms_pacman_l2_loop fs n rest diff')"

definition ms_pacman_enough_l2_movement :: "frame list \<Rightarrow> bool" where
  "ms_pacman_enough_l2_movement frames =
     (let frames_scaled = scale_frames frames; n = length frames_scaled
      in ms_pacman_l2_loop frames_scaled n (rev [0..<n - 1]) 0)"

text \<open>The copy in \<^verbatim>\<open>ucf101.py\<close>: the same loop without the test on the last pair.\<close>

fun ucf101_l2_loop :: "rat list list list list \<Rightarrow> nat \<Rightarrow> nat list \<Rightarrow> rat \<Rightarrow> bool" where
  "ucf101_l2_loop fs n [] diff = False"
| "ucf101_l2_loop fs n (i # rest) diff =
     (let diff' = diff + sum_square_diff (fs ! i) (fs ! (i + 1)) in
      if diff' \<ge> MIN_L2_DIFF_PER_FRAME * of_nat n then True
      else ucf101_l2_loop fs n rest diff')"

definition ucf101_enough_l2_movement :: "frame list \<Rightarrow> bool" where
  "ucf101_enough_l2_movement frames =
     (let frames_scaled = scale_frames frames; n = length frames_scaled
      in ucf101_l2_loop frames_scaled n (rev [0..<n - 1]) 0)"

subsection \<open>The filter as the specification words it\<close>






section \<open>Cropping and flipping\<close>

text \<open>
  \<^verbatim>\<open>frame[oy:(oy + ch), ox:(ox + cw), :]\<close> and \<^verbatim>\<open>frame[:, ::-1, :]\<close> on one frame.
  Slices never raise: a window that leaves the frame is cut short.
\<close>

definition crop_frame :: "int \<Rightarrow> int \<Rightarrow> int \<Rightarrow> int \<Rightarrow> 'a list list list \<Rightarrow> 'a list list list" where
  "crop_frame offset_y offset_x crop_h crop_w f =
     map (\<lambda>row. py_slice row (Some offset_x) (Some (offset_x + crop_w)))
         (py_slice f (Some offset_y) (Some (offset_y + crop_h)))"

definition flip_frame :: "'a list list list \<Rightarrow> 'a list list list" where
  "flip_frame f = map rev f"

section \<open>The UCF-101 evaluation dataset\<close>

definition ucf101_MAX_TRIES :: nat where
  "ucf101_MAX_TRIES = 100"

text \<open>
  The fields of \<^verbatim>\<open>UCF101BaseEvaluationDataset\<close> that \<^verbatim>\<open>get_batch\<close> and
  \<^verbatim>\<open>reset\<close> use. Sizes of arrays and lengths are naturals. \<open>ucf_dataset_size\<close> is the
  (inflated) size handed to the base class, which \<^verbatim>\<open>self.size\<close> returns.
\<close>

record ucf101_dataset =
  ucf_file_name_list :: "string list"
  ucf_real_dataset_size :: int
  ucf_indices :: "int list"
  ucf_row :: int
  ucf_dataset_size :: int
  ucf_serialized_sequence_length :: nat
  ucf_double_with_flipped :: bool
  ucf_crop_size :: "(nat \<times> nat) option"
  ucf_skip_less_movement :: bool
  ucf_data_img_size :: "nat \<times> nat \<times> nat"
  ucf_input_seq_length :: nat
  ucf_target_seq_length :: nat

text \<open>The shapes the constructor hands to the base class (lines 361 to 366).\<close>

definition ucf101_input_shape :: "ucf101_dataset \<Rightarrow> nat list" where
  "ucf101_input_shape ds =
     (case ucf_data_img_size ds of (h, w, c) \<Rightarrow>
        (case ucf_crop_size ds of
           None \<Rightarrow> [ucf_input_seq_length ds, h, w, c]
         | Some (ch, cw) \<Rightarrow> [ucf_input_seq_length ds, ch, cw, c]))"

definition ucf101_target_shape :: "ucf101_dataset \<Rightarrow> nat list" where
  "ucf101_target_shape ds =
     (case ucf_data_img_size ds of (h, w, c) \<Rightarrow>
        (case ucf_crop_size ds of
           None \<Rightarrow> [ucf_target_seq_length ds, h, w, c]
         | Some (ch, cw) \<Rightarrow> [ucf_target_seq_length ds, ch, cw, c]))"

text \<open>
  \<^verbatim>\<open>np.random.shuffle\<close>: for \<open>i\<close> from the last index down to 1, swap position \<open>i\<close>
  with a position drawn from \<open>[0, i]\<close>.
\<close>

fun shuffle_loop :: "nat list \<Rightarrow> 'a list \<Rightarrow> rng \<Rightarrow> 'a list \<times> rng" where
  "shuffle_loop [] xs g = (xs, g)"
| "shuffle_loop (i # rest) xs g =
     (let j = g 0 mod (i + 1)
      in shuffle_loop rest (xs[i := xs ! j, j := xs ! i]) (g \<circ> Suc))"

definition np_random_shuffle :: "'a list \<Rightarrow> rng \<Rightarrow> 'a list \<times> rng" where
  "np_random_shuffle xs g = shuffle_loop (rev [1..<length xs]) xs g"

definition ucf101_reset :: "ucf101_dataset \<Rightarrow> rng \<Rightarrow> ucf101_dataset \<times> rng" where
  "ucf101_reset ds np_g =
     (case np_random_shuffle (ucf_indices ds) np_g of
        (ind, np_g') \<Rightarrow> (ds\<lparr>ucf_row := 0, ucf_indices := ind\<rparr>, np_g'))"

text \<open>The window of indices of one batch (lines 399 to 404), for a true size other than 0.\<close>

definition ucf101_ind_range :: "int list \<Rightarrow> int \<Rightarrow> int \<Rightarrow> int \<Rightarrow> int list" where
  "ucf101_ind_range indices row data_size batch_size =
     (let start = row mod data_size;
          end = (start + batch_size) mod data_size
      in if start > end
         then py_slice indices (Some start) None @ py_slice indices None (Some end)
         else py_slice indices (Some start) (Some end))"

text \<open>
  \<^verbatim>\<open>np.reshape\<close> of a flat array to four dimensions, in row-major order; ValueError when
  the sizes do not multiply to the length.
\<close>

definition np_reshape4 :: "'a list \<Rightarrow> nat \<Rightarrow> nat \<Rightarrow> nat \<Rightarrow> nat \<Rightarrow> error + 'a list list list list" where
  "np_reshape4 flat n h w c =
     (if length flat \<noteq> n * h * w * c then Inl ValueError
      else Inr (map (\<lambda>t. map (\<lambda>y. map (\<lambda>x. map (\<lambda>k. flat ! (((t * h + y) * w + x) * c + k))
                  [0..<c]) [0..<w]) [0..<h]) [0..<n]))"

text \<open>
  The retry loop of the crop (lines 430 to 446) over the retries still to come. \<open>crop\<close> is
  the variable of that name: the loop leaves the last crop in it when no attempt breaks.
\<close>

fun ucf101_crop_loop ::
  "ucf101_dataset \<Rightarrow> nat \<times> nat \<Rightarrow> frame list \<Rightarrow> nat list \<Rightarrow> frame list \<Rightarrow> rng
     \<Rightarrow> error + (frame list \<times> rng)" where
  "ucf101_crop_loop ds cs current [] crop g = Inr (crop, g)"
| "ucf101_crop_loop ds cs current (retry # rest) crop g =
     (case randint 0 (int (fst (snd (ucf_data_img_size ds))) - int (snd cs)) g of
        Inl e \<Rightarrow> Inl e
      | Inr (offset_x, g1) \<Rightarrow>
     (case randint 0 (int (fst (ucf_data_img_size ds)) - int (fst cs)) g1 of
        Inl e \<Rightarrow> Inl e
      | Inr (offset_y, g2) \<Rightarrow>
          let crop' = map (crop_frame offset_y offset_x (int (fst cs)) (int (snd cs))) current
          in if ucf_skip_less_movement ds
                \<and> \<not> ucf101_enough_l2_movement
                      (py_slice crop' None (Some (int (ucf_input_seq_length ds))))
             then ucf101_crop_loop ds cs current rest crop' g2
             else Inr (crop', g2)))"

text \<open>
  The flip rule of the doubled dataset (lines 451 and 452); \<^verbatim>\<open>and\<close> binds tighter than
  \<^verbatim>\<open>or\<close>.
\<close>

definition ucf101_flip_decision :: "int \<Rightarrow> int \<Rightarrow> bool" where
  "ucf101_flip_decision virtual_row data_size \<longleftrightarrow>
     (virtual_row < data_size \<and> virtual_row mod 2 = 0)
     \<or> (virtual_row \<ge> data_size \<and> virtual_row mod 2 = 1)"

definition ucf101_flip_item :: "ucf101_dataset \<Rightarrow> int \<Rightarrow> frame list \<Rightarrow> frame list" where
  "ucf101_flip_item ds virtual_row current =
     (if ucf_double_with_flipped ds
         \<and> ucf101_flip_decision virtual_row (ucf_real_dataset_size ds)
      then map flip_frame current else current)"

text \<open>
  The body of the loop over the file names (lines 417 to 456) for one file: the pair of
  the input and the target sequence that is appended. \<open>fsys\<close> maps a path to the bytes
  \<^verbatim>\<open>light.utils.image.read_as_binary\<close> returns for it.
\<close>

definition ucf101_load_item ::
  "ucf101_dataset \<Rightarrow> (string \<rightharpoonup> 8 word list) \<Rightarrow> int \<Rightarrow> string \<Rightarrow> rng
     \<Rightarrow> error + ((frame list \<times> frame list) \<times> rng)" where
  "ucf101_load_item ds fsys virtual_row f g =
     (case fsys f of None \<Rightarrow> Inl IOError | Some bytes \<Rightarrow>
      (case ucf_data_img_size ds of (h, w, c) \<Rightarrow>
      (case np_reshape4 bytes (ucf_serialized_sequence_length ds) h w c of
         Inl e \<Rightarrow> Inl e
       | Inr whole \<Rightarrow>
        let inputs_length = int (hd (ucf101_input_shape ds));
            targets_length = int (hd (ucf101_target_shape ds));
            total_length = inputs_length + targets_length
        in (case randint 0 (int (ucf_serialized_sequence_length ds) - total_length) g of
              Inl e \<Rightarrow> Inl e
            | Inr (start_t, g1) \<Rightarrow>
               let current = py_slice whole (Some start_t) (Some (start_t + total_length))
               in (case (case ucf_crop_size ds of
                           None \<Rightarrow> Inr (current, g1)
                         | Some cs \<Rightarrow>
                             ucf101_crop_loop ds cs current [0..<ucf101_MAX_TRIES] [] g1) of
                     Inl e \<Rightarrow> Inl e
                   | Inr (cropped, g2) \<Rightarrow>
                       let flipped = ucf101_flip_item ds virtual_row cropped
                       in Inr ((py_slice flipped (Some 0) (Some inputs_length),
                                py_slice flipped (Some inputs_length)
                                  (Some (inputs_length + total_length))), g2))))))"

fun ucf101_load_items ::
  "ucf101_dataset \<Rightarrow> (string \<rightharpoonup> 8 word list) \<Rightarrow> int \<Rightarrow> string list \<Rightarrow> rng
     \<Rightarrow> error + ((frame list \<times> frame list) list \<times> rng)" where
  "ucf101_load_items ds fsys virtual_row [] g = Inr ([], g)"
| "ucf101_load_items ds fsys virtual_row (f # fs) g =
     (case ucf101_load_item ds fsys virtual_row f g of
        Inl e \<Rightarrow> Inl e
      | Inr (item, g1) \<Rightarrow>
          (case ucf101_load_items ds fsys (virtual_row + 1) fs g1 of
             Inl e \<Rightarrow> Inl e
           | Inr (items, g2) \<Rightarrow> Inr (item # items, g2)))"

text \<open>
  \<^verbatim>\<open>[xs[i] for i in ind_range]\<close>, and \<^verbatim>\<open>np.stack\<close>: ValueError on no array at all and
  on arrays of different shapes. Of the shape of a nested list only the sizes it shows
  are read (an empty list has no inner sizes to show).
\<close>

fun index_all :: "'a list \<Rightarrow> int list \<Rightarrow> error + 'a list" where
  "index_all xs [] = Inr []"
| "index_all xs (i # rest) =
     (case py_index xs i of
        Inl e \<Rightarrow> Inl e
      | Inr x \<Rightarrow> (case index_all xs rest of Inl e \<Rightarrow> Inl e | Inr ys \<Rightarrow> Inr (x # ys)))"

definition seq_shape :: "'a list list list list \<Rightarrow> nat list" where
  "seq_shape s =
     (case s of [] \<Rightarrow> [0] | f # _ \<Rightarrow>
        length s # (case f of [] \<Rightarrow> [0] | row # _ \<Rightarrow>
          length f # (case row of [] \<Rightarrow> [0] | px # _ \<Rightarrow> [length row, length px])))"

definition np_stack :: "'a list list list list list \<Rightarrow> error + 'a list list list list list" where
  "np_stack arrays =
     (case arrays of
        [] \<Rightarrow> Inl ValueError
      | a # _ \<Rightarrow> if list_all (\<lambda>b. seq_shape b = seq_shape a) arrays then Inr arrays
                 else Inl ValueError)"

text \<open>
  \<^verbatim>\<open>array / np.float32(255)\<close> on a uint8 array, elementwise. \<open>rnd\<close> is the rounding of
  the exact quotient to float32.
\<close>

definition div_float32_255 :: "(rat \<Rightarrow> rat) \<Rightarrow> 8 word list list list list list \<Rightarrow> rat list list list list list" where
  "div_float32_255 rnd batch = map (map (map (map (map (\<lambda>p. rnd (of_nat (unat p) / 255)))))) batch"

text \<open>
  \<^verbatim>\<open>UCF101BaseEvaluationDataset.get_batch\<close>. The result is the pair of arrays, the
  dataset with its cursor advanced, and the two generators.
\<close>

definition ucf101_get_batch ::
  "(rat \<Rightarrow> rat) \<Rightarrow> ucf101_dataset \<Rightarrow> int \<Rightarrow> (string \<rightharpoonup> 8 word list) \<Rightarrow> rng \<Rightarrow> rng
     \<Rightarrow> error + ((rat list list list list list \<times> rat list list list list list)
                  \<times> ucf101_dataset \<times> rng \<times> rng)" where
  "ucf101_get_batch rnd ds0 batch_size fsys np_g0 py_g =
     (let fake_size = ucf_dataset_size ds0;
          data_size = ucf_real_dataset_size ds0;
          (ds, np_g) = (if ucf_row ds0 + batch_size \<ge> fake_size then ucf101_reset ds0 np_g0
                        else (ds0, np_g0))
      in if data_size = 0 then Inl ZeroDivisionError
         else
           let ind_range = ucf101_ind_range (ucf_indices ds) (ucf_row ds) data_size batch_size
           in if int (length ind_range) \<noteq> batch_size then Inl AssertionError
              else
                (case index_all (ucf_file_name_list ds) ind_range of
                   Inl e \<Rightarrow> Inl e
                 | Inr file_names \<Rightarrow>
                (case ucf101_load_items ds fsys (ucf_row ds) file_names py_g of
                   Inl e \<Rightarrow> Inl e
                 | Inr (items, py_g') \<Rightarrow>
                (case np_stack (map fst items) of
                   Inl e \<Rightarrow> Inl e
                 | Inr input_sequence \<Rightarrow>
                (case np_stack (map snd items) of
                   Inl e \<Rightarrow> Inl e
                 | Inr target_sequence \<Rightarrow>
                     Inr ((div_float32_255 rnd input_sequence,
                           div_float32_255 rnd target_sequence),
                          ds\<lparr>ucf_row := ucf_row ds + batch_size\<rparr>, np_g, py_g'))))))"

section \<open>The Ms. Pac-Man dataset\<close>

definition FRAME_HEIGHT :: nat where
  "FRAME_HEIGHT = 210"

definition FRAME_WIDTH :: nat where
  "FRAME_WIDTH = 160"

definition FRAME_CHANNELS :: nat where
  "FRAME_CHANNELS = 3"

definition HUD_Y :: int where
  "HUD_Y = 172"

definition MAX_TRIES :: nat where
  "MAX_TRIES = 100"

text \<open>
  The fields of \<^verbatim>\<open>MsPacmanBaseDataset\<close>. An entry of \<open>mp_data\<close> is
  \<^verbatim>\<open>(path, files_count, filenames)\<close>. \<open>mp_dataset_size\<close> is the size handed to the base
  class. \<open>mp_row\<close> and \<open>mp_indices\<close> stand for the sample cursor of a dataset (the row and
  the permutation of the indices, \<^verbatim>\<open>self._row\<close> and \<^verbatim>\<open>self._indices\<close> of
  \<^verbatim>\<open>AbstractDataset\<close> in \<^verbatim>\<open>datasets/base.py\<close>); no line of \<^verbatim>\<open>ms_pacman.py\<close>
  sets or reads them.
\<close>

record ms_pacman_dataset =
  mp_data_dir :: string
  mp_data :: "(string \<times> nat \<times> string list) list"
  mp_crop_size :: "(nat \<times> nat) option"
  mp_repetitions_per_epoche :: int
  mp_skip_less_movement :: bool
  mp_random_flip :: bool
  mp_true_dataset_size :: nat
  mp_input_seq_length :: nat
  mp_target_seq_length :: nat
  mp_dataset_size :: int
  mp_row :: int
  mp_indices :: "int list"





text \<open>\<^verbatim>\<open>os.path.join\<close> of two components, as \<^verbatim>\<open>posixpath\<close> has it.\<close>

definition os_path_join :: "string \<Rightarrow> string \<Rightarrow> string" where
  "os_path_join a b =
     (if b \<noteq> [] \<and> hd b = CHR ''/'' then b
      else if a = [] \<or> last a = CHR ''/'' then a @ b
      else a @ ''/'' @ b)"

text \<open>
  \<^verbatim>\<open>np.random.choice(a, size)\<close> for an integer \<open>a\<close>: \<open>size\<close> draws from \<open>range(a)\<close>,
  ValueError when \<open>a\<close> is not positive or \<open>size\<close> is negative.
\<close>

definition np_random_choice :: "nat \<Rightarrow> int \<Rightarrow> rng \<Rightarrow> error + (nat list \<times> rng)" where
  "np_random_choice a sz g =
     (if a = 0 \<or> sz < 0 then Inl ValueError
      else Inr (map (\<lambda>k. g k mod a) [0..<nat sz], (\<lambda>k. g (k + nat sz))))"

text \<open>
  Reading the frames of the sequence \<open>current_seq\<close> at the given indices, in order.
  \<open>fsys\<close> maps a path to the array \<^verbatim>\<open>light.utils.image.read\<close> decodes from it.
\<close>

fun read_frames ::
  "(string \<rightharpoonup> frame) \<Rightarrow> string \<times> nat \<times> string list \<Rightarrow> nat list \<Rightarrow> error + frame list" where
  "read_frames fsys current_seq [] = Inr []"
| "read_frames fsys current_seq (fidx # rest) =
     (case py_index (snd (snd current_seq)) (int fidx) of
        Inl e \<Rightarrow> Inl e
      | Inr name \<Rightarrow>
     (case fsys (os_path_join (fst current_seq) name) of
        None \<Rightarrow> Inl IOError
      | Some frame \<Rightarrow>
     (case read_frames fsys current_seq rest of
        Inl e \<Rightarrow> Inl e
      | Inr frames \<Rightarrow> Inr (frame # frames))))"

text \<open>The two random offsets of one attempt (lines 193 to 197): \<open>(offset_y, offset_x)\<close>.\<close>

definition ms_pacman_draw_offsets ::
  "ms_pacman_dataset \<Rightarrow> rng \<Rightarrow> error + (int \<times> int \<times> rng)" where
  "ms_pacman_draw_offsets ds g =
     (case mp_crop_size ds of
        None \<Rightarrow> Inr (0, 0, g)
      | Some (ch, cw) \<Rightarrow>
          (case randint 0 (int FRAME_WIDTH - int cw) g of
             Inl e \<Rightarrow> Inl e
           | Inr (offset_x, g1) \<Rightarrow>
          (case randint 0 (int FRAME_HEIGHT - int ch) g1 of
             Inl e \<Rightarrow> Inl e
           | Inr (offset_y, g2) \<Rightarrow> Inr (offset_y, offset_x, g2))))"

text \<open>The test of lines 194 and 199: cropping is on and the crop reaches into the HUD.\<close>

definition ms_pacman_hud_visible :: "ms_pacman_dataset \<Rightarrow> int \<Rightarrow> bool" where
  "ms_pacman_hud_visible ds offset_y =
     (case mp_crop_size ds of
        None \<Rightarrow> False
      | Some (ch, cw) \<Rightarrow> offset_y + int ch > HUD_Y)"

text \<open>
  What one frame contributes to the batch (lines 207 to 213 and 229 to 235): cropped if
  cropping is on, flipped if \<open>do_flip\<close>. The assignment into the slot of the batch array
  raises ValueError when the shapes differ (the embedding takes no size-1 axis to be
  broadcast: decoded frames have all three axes in full).
\<close>

definition ms_pacman_slot_dims :: "ms_pacman_dataset \<Rightarrow> nat \<times> nat" where
  "ms_pacman_slot_dims ds =
     (case mp_crop_size ds of None \<Rightarrow> (FRAME_HEIGHT, FRAME_WIDTH) | Some cs \<Rightarrow> cs)"

definition ms_pacman_write_frame ::
  "ms_pacman_dataset \<Rightarrow> int \<Rightarrow> int \<Rightarrow> bool \<Rightarrow> frame \<Rightarrow> error + frame" where
  "ms_pacman_write_frame ds offset_y offset_x do_flip frame0 =
     (let frame = (case mp_crop_size ds of
                     None \<Rightarrow> frame0
                   | Some (ch, cw) \<Rightarrow> crop_frame offset_y offset_x (int ch) (int cw) frame0);
          written = (if do_flip then flip_frame frame else frame)
      in if frame_shape_ok (fst (ms_pacman_slot_dims ds)) (snd (ms_pacman_slot_dims ds))
              FRAME_CHANNELS written
         then Inr written else Inl ValueError)"

fun ms_pacman_process_inputs ::
  "ms_pacman_dataset \<Rightarrow> int \<Rightarrow> int \<Rightarrow> bool \<Rightarrow> frame list \<Rightarrow> error + frame list" where
  "ms_pacman_process_inputs ds offset_y offset_x do_flip [] = Inr []"
| "ms_pacman_process_inputs ds offset_y offset_x do_flip (frame # rest) =
     (case ms_pacman_write_frame ds offset_y offset_x do_flip frame of
        Inl e \<Rightarrow> Inl e
      | Inr written \<Rightarrow>
     (case ms_pacman_process_inputs ds offset_y offset_x do_flip rest of
        Inl e \<Rightarrow> Inl e
      | Inr ws \<Rightarrow> Inr (written # ws)))"

text \<open>The loop over the target frames (lines 223 to 235): each is read, then written.\<close>

fun ms_pacman_process_targets ::
  "ms_pacman_dataset \<Rightarrow> (string \<rightharpoonup> frame) \<Rightarrow> string \<times> nat \<times> string list
     \<Rightarrow> int \<Rightarrow> int \<Rightarrow> bool \<Rightarrow> nat list \<Rightarrow> error + frame list" where
  "ms_pacman_process_targets ds fsys current_seq offset_y offset_x do_flip [] = Inr []"
| "ms_pacman_process_targets ds fsys current_seq offset_y offset_x do_flip (fidx # rest) =
     (case py_index (snd (snd current_seq)) (int fidx) of
        Inl e \<Rightarrow> Inl e
      | Inr current_filename \<Rightarrow>
     (case fsys (os_path_join (fst current_seq) current_filename) of
        None \<Rightarrow> Inl IOError
      | Some frame \<Rightarrow>
     (case ms_pacman_write_frame ds offset_y offset_x do_flip frame of
        Inl e \<Rightarrow> Inl e
      | Inr written \<Rightarrow>
     (case ms_pacman_process_targets ds fsys current_seq offset_y offset_x do_flip rest of
        Inl e \<Rightarrow> Inl e
      | Inr ws \<Rightarrow> Inr (written # ws)))))"

text \<open>
  One pass through the body of the retry loop is recorded as an \<open>attempt\<close>: the retry
  index, the offsets drawn, the flip flag in force when the frames were written, the
  input frames written to \<^verbatim>\<open>batch_inputs[batch]\<close>, the result of the call of
  \<^verbatim>\<open>enough_l2_movement\<close> (\<open>None\<close> when it was not called), and whether the pass
  reached the \<^verbatim>\<open>break\<close>.
\<close>

record attempt =
  att_retry :: nat
  att_offset_y :: int
  att_offset_x :: int
  att_do_flip :: bool
  att_inputs :: "frame list"
  att_motion_test :: "bool option"
  att_accepted :: bool

text \<open>
  The retry loop (lines 192 to 238) over the retries still to come. \<open>slot\<close> is what
  \<^verbatim>\<open>batch_inputs[batch]\<close> and \<^verbatim>\<open>batch_targets[batch]\<close> hold; a loop that runs out
  without \<^verbatim>\<open>break\<close> leaves them as they are.
\<close>

fun ms_pacman_retry_loop ::
  "ms_pacman_dataset \<Rightarrow> (string \<rightharpoonup> frame) \<Rightarrow> string \<times> nat \<times> string list \<Rightarrow> nat
     \<Rightarrow> frame list \<Rightarrow> nat list \<Rightarrow> bool \<Rightarrow> frame list \<times> frame list \<Rightarrow> rng
     \<Rightarrow> error + ((frame list \<times> frame list) \<times> rng \<times> attempt list)" where
  "ms_pacman_retry_loop ds fsys current_seq start_idx input_frames [] do_flip slot g =
     Inr (slot, g, [])"
| "ms_pacman_retry_loop ds fsys current_seq start_idx input_frames (retry # rest) do_flip slot g =
     (case ms_pacman_draw_offsets ds g of
        Inl e \<Rightarrow> Inl e
      | Inr (offset_y, offset_x, g1) \<Rightarrow>
          let do_flip1 = (if ms_pacman_hud_visible ds offset_y then False else do_flip)
          in (case ms_pacman_process_inputs ds offset_y offset_x do_flip1 input_frames of
                Inl e \<Rightarrow> Inl e
              | Inr written \<Rightarrow>
                  let tested = (mp_crop_size ds \<noteq> None \<and> mp_skip_less_movement ds
                                \<and> int retry \<noteq> int MAX_TRIES - 1);
                      moved = (if tested then Some (ms_pacman_enough_l2_movement written)
                               else None);
                      att = \<lparr>att_retry = retry, att_offset_y = offset_y,
                             att_offset_x = offset_x, att_do_flip = do_flip1,
                             att_inputs = written, att_motion_test = moved,
                             att_accepted = (moved \<noteq> Some False)\<rparr>
                  in if moved = Some False
                     then (case ms_pacman_retry_loop ds fsys current_seq start_idx input_frames
                                  rest do_flip1 (written, snd slot) g1 of
                             Inl e \<Rightarrow> Inl e
                           | Inr (slot', g', atts) \<Rightarrow> Inr (slot', g', att # atts))
                     else (case ms_pacman_process_targets ds fsys current_seq offset_y offset_x
                                  do_flip1
                                  [start_idx + mp_input_seq_length ds
                                   ..< start_idx + (mp_input_seq_length ds
                                                    + mp_target_seq_length ds)] of
                             Inl e \<Rightarrow> Inl e
                           | Inr targets \<Rightarrow> Inr ((written, targets), g1, [att]))))"

text \<open>
  The body of the loop over the batch (lines 163 to 238) for one item: the sequence, the
  start index, the flip draw, the input frames, the retry loop.
\<close>

definition ms_pacman_sample_item ::
  "ms_pacman_dataset \<Rightarrow> (string \<rightharpoonup> frame) \<Rightarrow> nat \<Rightarrow> frame list \<times> frame list \<Rightarrow> rng
     \<Rightarrow> error + ((frame list \<times> frame list) \<times> rng \<times> attempt list)" where
  "ms_pacman_sample_item ds fsys seq_index slot g =
     (let total_seq_len = mp_input_seq_length ds + mp_target_seq_length ds
      in (case py_index (mp_data ds) (int seq_index) of
            Inl e \<Rightarrow> Inl e
          | Inr current_seq \<Rightarrow>
         (case randint 0 (int (fst (snd current_seq)) - int total_seq_len) g of
            Inl e \<Rightarrow> Inl e
          | Inr (start_idx, g1) \<Rightarrow>
              let (do_flip, g2) =
                    (if mp_random_flip ds
                     then (case random_random g1 of (r, g') \<Rightarrow> (r > 1 / 2, g'))
                     else (False, g1))
              in (case read_frames fsys current_seq
                         [nat start_idx ..< nat start_idx + mp_input_seq_length ds] of
                    Inl e \<Rightarrow> Inl e
                  | Inr input_frames \<Rightarrow>
                      ms_pacman_retry_loop ds fsys current_seq (nat start_idx) input_frames
                        [0..<MAX_TRIES] do_flip slot g2))))"

fun ms_pacman_sample_items ::
  "ms_pacman_dataset \<Rightarrow> (string \<rightharpoonup> frame) \<Rightarrow> (nat \<times> frame list \<times> frame list) list \<Rightarrow> rng
     \<Rightarrow> error + ((frame list \<times> frame list) list \<times> rng)" where
  "ms_pacman_sample_items ds fsys [] g = Inr ([], g)"
| "ms_pacman_sample_items ds fsys ((seq_index, slot) # rest) g =
     (case ms_pacman_sample_item ds fsys seq_index slot g of
        Inl e \<Rightarrow> Inl e
      | Inr (item, g1, atts) \<Rightarrow>
     (case ms_pacman_sample_items ds fsys rest g1 of
        Inl e \<Rightarrow> Inl e
      | Inr (items, g2) \<Rightarrow> Inr (item # items, g2)))"

text \<open>
  \<^verbatim>\<open>MsPacmanBaseDataset.get_batch\<close>. \<open>empty_inputs\<close> and \<open>empty_targets\<close> are what the
  memory that \<^verbatim>\<open>np.empty\<close> returns holds, item by item. The result is the pair of
  arrays, the dataset, and the two generators.
\<close>

definition ms_pacman_get_batch ::
  "(rat \<Rightarrow> rat) \<Rightarrow> ms_pacman_dataset \<Rightarrow> int \<Rightarrow> (string \<rightharpoonup> frame)
     \<Rightarrow> (nat \<Rightarrow> frame list) \<Rightarrow> (nat \<Rightarrow> frame list) \<Rightarrow> rng \<Rightarrow> rng
     \<Rightarrow> error + ((rat list list list list list \<times> rat list list list list list)
                  \<times> ms_pacman_dataset \<times> rng \<times> rng)" where
  "ms_pacman_get_batch rnd ds batch_size fsys empty_inputs empty_targets np_g py_g =
     (case np_random_choice (mp_true_dataset_size ds) batch_size np_g of
        Inl e \<Rightarrow> Inl e
      | Inr (seq_indices, np_g') \<Rightarrow>
     (case ms_pacman_sample_items ds fsys
             (map (\<lambda>batch. (seq_indices ! batch, empty_inputs batch, empty_targets batch))
                  [0..<nat batch_size]) py_g of
        Inl e \<Rightarrow> Inl e
      | Inr (items, py_g') \<Rightarrow>
          Inr ((div_float32_255 rnd (map fst items), div_float32_255 rnd (map snd items)),
               ds, np_g', py_g')))"

definition ms_pacman_reset :: "ms_pacman_dataset \<Rightarrow> ms_pacman_dataset" where
  "ms_pacman_reset ds = ds"

section \<open>Auxiliary notions for the proofs\<close>





definition ms_pacman_crop_fits :: "ms_pacman_dataset \<Rightarrow> bool" where
  "ms_pacman_crop_fits ds \<longleftrightarrow>
     (case mp_crop_size ds of
        None \<Rightarrow> True
      | Some (ch, cw) \<Rightarrow> ch \<le> FRAME_HEIGHT \<and> cw \<le> FRAME_WIDTH)"

definition ms_pacman_seq_ok ::
  "ms_pacman_dataset \<Rightarrow> (string \<rightharpoonup> frame) \<Rightarrow> string \<times> nat \<times> string list \<Rightarrow> bool" where
  "ms_pacman_seq_ok ds fsys current_seq \<longleftrightarrow>
     mp_input_seq_length ds + mp_target_seq_length ds \<le> fst (snd current_seq)
     \<and> fst (snd current_seq) \<le> length (snd (snd current_seq))
     \<and> list_all (\<lambda>name. case fsys (os_path_join (fst current_seq) name) of
                            None \<Rightarrow> False
                          | Some f \<Rightarrow> frame_shape_ok FRAME_HEIGHT FRAME_WIDTH FRAME_CHANNELS f)
          (snd (snd current_seq))"







section \<open>Properties of the motion filter\<close>



























section \<open>Slices, index windows and crops\<close>

lemma py_slice_from: "0 \<le> a \<Longrightarrow> py_slice xs (Some a) None = drop (nat a) xs"
  by (simp add: py_slice_def slice_bound_def Let_def min_def)

lemma py_slice_upto: "0 \<le> b \<Longrightarrow> py_slice xs None (Some b) = take (nat b) xs"
  by (simp add: py_slice_def slice_bound_def Let_def min_def)

lemma py_slice_range:
  "0 \<le> a \<Longrightarrow> a \<le> b \<Longrightarrow> py_slice xs (Some a) (Some b) = take (nat b - nat a) (drop (nat a) xs)"
  by (auto simp: py_slice_def slice_bound_def Let_def min_def)

lemma length_py_slice_range:
  "0 \<le> a \<Longrightarrow> a \<le> b \<Longrightarrow> b \<le> int (length xs)
     \<Longrightarrow> length (py_slice xs (Some a) (Some b)) = nat (b - a)"
  by (auto simp: py_slice_range)

lemma ucf101_ind_range_length:
  assumes "0 < N" "int (length indices) = N" "0 < bs" "bs < N"
  shows "int (length (ucf101_ind_range indices r N bs)) = bs"
proof -
  define start where "start = r mod N"
  define e where "e = (start + bs) mod N"
  have s: "0 \<le> start" "start < N" using assms by (simp_all add: start_def)
  have e0: "0 \<le> e" "e < N" using assms by (simp_all add: e_def)
  show ?thesis
  proof (cases "start + bs < N")
    case True
    then have e: "e = start + bs" using s assms by (simp add: e_def)
    then show ?thesis
      using s assms True
      by (simp add: ucf101_ind_range_def Let_def flip: start_def e_def)
         (simp add: py_slice_range)
  next
    case False
    then have e: "e = start + bs - N"
      using s assms unfolding e_def
      by (smt (verit) minus_mod_self2 mod_pos_pos_trivial)
    then show ?thesis
      using s assms False
      by (simp add: ucf101_ind_range_def Let_def flip: start_def e_def)
         (simp add: py_slice_from py_slice_upto)
  qed
qed

lemma ucf101_ind_range_take_drop:
  assumes "0 < N" "int (length indices) = N"
  shows "ucf101_ind_range indices r N bs =
     (if r mod N > (r mod N + bs) mod N
      then drop (nat (r mod N)) indices @ take (nat ((r mod N + bs) mod N)) indices
      else take (nat ((r mod N + bs) mod N) - nat (r mod N)) (drop (nat (r mod N)) indices))"
  using assms
  by (simp add: ucf101_ind_range_def Let_def py_slice_from py_slice_upto py_slice_range)

lemma flip_decision_parity:
  "ucf101_flip_decision vr N \<longleftrightarrow> (if vr < N then even vr else odd vr)"
  by (auto simp: ucf101_flip_decision_def even_iff_mod_2_eq_zero odd_iff_mod_2_eq_one)

lemma randint_range: "randint a b g = Inr (x, g') \<Longrightarrow> a \<le> x \<and> x \<le> b"
  by (auto simp: randint_def split: if_splits)
     (smt (verit, best) Euclidean_Rings.pos_mod_bound)

lemma randint_onto: "a \<le> x \<Longrightarrow> x \<le> b \<Longrightarrow> \<exists>g g'. randint a b g = Inr (x, g')"
  by (rule exI [of _ "\<lambda>_. nat (x - a)"]) (simp add: randint_def)

lemma crop_frame_shape:
  assumes "frame_shape_ok H W C f" "0 \<le> oy" "oy + int ch \<le> int H" "0 \<le> ox" "ox + int cw \<le> int W"
  shows "frame_shape_ok ch cw C (crop_frame oy ox (int ch) (int cw) f)"
  using assms
  by (auto simp: frame_shape_ok_def crop_frame_def py_slice_range list_all_iff
      dest!: in_set_takeD in_set_dropD)

lemma crop_frame_nth:
  assumes "frame_shape_ok H W C f" "0 \<le> oy" "oy + int ch \<le> int H" "0 \<le> ox" "ox + int cw \<le> int W"
    "i < ch" "j < cw"
  shows "crop_frame oy ox (int ch) (int cw) f ! i ! j = f ! (nat oy + i) ! (nat ox + j)"
proof -
  have row: "nat oy + i < length f" using assms by (simp add: frame_shape_ok_def)
  then have "length (f ! (nat oy + i)) = W"
    using assms(1) by (simp add: frame_shape_ok_def list_all_length)
  moreover have "nat (oy + int ch) - nat oy = ch" "nat (ox + int cw) - nat ox = cw"
    using assms by (simp_all add: nat_add_distrib)
  moreover have "i < length (take ch (drop (nat oy) f))"
    using assms row by (simp add: frame_shape_ok_def)
  moreover have "nat ox + j < W" using assms by linarith
  ultimately show ?thesis
    using assms row
    by (simp add: crop_frame_def py_slice_range)
qed


lemma length_shuffle_loop: "length (fst (shuffle_loop idx xs g)) = length xs"
  by (induction idx arbitrary: xs g) (simp_all add: Let_def)

lemma length_np_random_shuffle: "length (fst (np_random_shuffle xs g)) = length xs"
  by (simp add: np_random_shuffle_def length_shuffle_loop)

lemma ucf101_reset_fields:
  "ucf_indices (fst (ucf101_reset ds g)) = fst (np_random_shuffle (ucf_indices ds) g)"
  "ucf_row (fst (ucf101_reset ds g)) = 0"
  "ucf_real_dataset_size (fst (ucf101_reset ds g)) = ucf_real_dataset_size ds"
  by (simp_all add: ucf101_reset_def split: prod.splits)

subsection \<open>AssertionError has one source\<close>

lemma randint_not_assertion: "randint a b g \<noteq> Inl AssertionError"
  by (simp add: randint_def)

lemma index_all_not_assertion: "index_all xs idx \<noteq> Inl AssertionError"
  by (induction idx) (auto simp: py_index_def split: sum.splits)

lemma np_stack_not_assertion: "np_stack arrays \<noteq> Inl AssertionError"
  by (simp add: np_stack_def split: list.splits)

lemma ucf101_crop_loop_not_assertion:
  "ucf101_crop_loop ds cs current retries crop g \<noteq> Inl AssertionError"
  by (induction retries arbitrary: crop g)
     (auto simp: Let_def randint_def split: sum.splits if_splits)

lemma ucf101_load_item_not_assertion:
  "ucf101_load_item ds fsys virtual_row f g \<noteq> Inl AssertionError"
  using ucf101_crop_loop_not_assertion
  by (auto simp: ucf101_load_item_def np_reshape4_def Let_def randint_def
      split: option.splits prod.splits sum.splits if_splits)

lemma ucf101_load_items_not_assertion:
  "ucf101_load_items ds fsys virtual_row fs g \<noteq> Inl AssertionError"
  using ucf101_load_item_not_assertion
  by (induction fs arbitrary: virtual_row g) (auto split: sum.splits)

lemma ucf101_get_batch_assertion:
  "ucf101_get_batch rnd ds batch_size fsys np_g py_g = Inl AssertionError \<Longrightarrow>
     ucf_real_dataset_size ds \<noteq> 0 \<and>
     (\<exists>indices r. length indices = length (ucf_indices ds)
        \<and> int (length (ucf101_ind_range indices r (ucf_real_dataset_size ds) batch_size))
            \<noteq> batch_size)"
proof -
  assume a: "ucf101_get_batch rnd ds batch_size fsys np_g py_g = Inl AssertionError"
  define st where "st = (if ucf_row ds + batch_size \<ge> ucf_dataset_size ds
                         then ucf101_reset ds np_g else (ds, np_g))"
  have len: "length (ucf_indices (fst st)) = length (ucf_indices ds)"
    by (simp add: st_def ucf101_reset_fields length_np_random_shuffle)
  have "ucf_real_dataset_size ds \<noteq> 0
        \<and> int (length (ucf101_ind_range (ucf_indices (fst st)) (ucf_row (fst st))
                   (ucf_real_dataset_size ds) batch_size)) \<noteq> batch_size"
    using a
    unfolding ucf101_get_batch_def Let_def st_def [symmetric]
    by (cases st)
       (auto simp: index_all_not_assertion ucf101_load_items_not_assertion
          np_stack_not_assertion split: if_splits sum.splits prod.splits)
  with len show ?thesis by blast
qed

text \<open>
  Claim C4. With \<open>start = r mod N\<close> and \<open>end = (start + batch_size) mod N\<close>, the index
  window of the UCF-101 evaluation \<open>get_batch\<close> is \<open>indices[start:] + indices[:end]\<close> when
  \<open>start > end\<close> and \<open>indices[start:end]\<close> otherwise; for \<open>0 < batch_size < N\<close> and
  \<open>N\<close> indices the window has exactly \<open>batch_size\<close> elements, and \<open>get_batch\<close> never
  fails with the AssertionError of its check of the batch size.
\<close>

theorem ucf101_get_batch_index_window:
  assumes "0 < N" and "int (length indices) = N" and "0 < batch_size" and "batch_size < N"
  shows "ucf101_ind_range indices r N batch_size =
           (if r mod N > (r mod N + batch_size) mod N
            then drop (nat (r mod N)) indices @ take (nat ((r mod N + batch_size) mod N)) indices
            else take (nat ((r mod N + batch_size) mod N) - nat (r mod N))
                   (drop (nat (r mod N)) indices))
         \<and> int (length (ucf101_ind_range indices r N batch_size)) = batch_size
         \<and> (\<forall>rnd (ds :: ucf101_dataset) fsys np_g py_g.
               ucf_real_dataset_size ds = N \<and> ucf_indices ds = indices \<longrightarrow>
               ucf101_get_batch rnd ds batch_size fsys np_g py_g \<noteq> Inl AssertionError)"
proof (intro conjI allI impI)
  show "ucf101_ind_range indices r N batch_size =
           (if r mod N > (r mod N + batch_size) mod N
            then drop (nat (r mod N)) indices @ take (nat ((r mod N + batch_size) mod N)) indices
            else take (nat ((r mod N + batch_size) mod N) - nat (r mod N))
                   (drop (nat (r mod N)) indices))"
    using assms(1,2) by (rule ucf101_ind_range_take_drop)
  show "int (length (ucf101_ind_range indices r N batch_size)) = batch_size"
    using assms by (rule ucf101_ind_range_length)
next
  fix rnd and ds :: ucf101_dataset and fsys np_g py_g
  assume ds: "ucf_real_dataset_size ds = N \<and> ucf_indices ds = indices"
  show "ucf101_get_batch rnd ds batch_size fsys np_g py_g \<noteq> Inl AssertionError"
  proof
    assume "ucf101_get_batch rnd ds batch_size fsys np_g py_g = Inl AssertionError"
    from ucf101_get_batch_assertion [OF this] ds obtain ind r'
      where "length ind = length indices"
        and "int (length (ucf101_ind_range ind r' N batch_size)) \<noteq> batch_size"
      by auto
    then show False
      using ucf101_ind_range_length [of N ind batch_size r'] assms by simp
  qed
qed

theorem ucf101_get_batch_index_window_witness:
  "ucf101_ind_range [0, 1, 2, 3, 4] 3 5 4 = [3, 4, 0, 1]
   \<and> int (length (ucf101_ind_range [0, 1, 2, 3, 4] 3 5 4)) = 4"
  using ucf101_get_batch_index_window [of 5 "[0, 1, 2, 3, 4]" 4 3]
  by simp

text \<open>
  Claim C5, as the code has it. With \<open>double_with_flipped\<close> the flip of an item is a
  function of its virtual row and the true size \<open>N\<close> alone: a virtual row below \<open>N\<close> is
  flipped when it is even and left as it is when odd; a virtual row at or above \<open>N\<close> is
  flipped when it is odd and left as it is when even. With \<open>N = 5\<close>, virtual row 2 is
  flipped and virtual row 7 is flipped.
\<close>

theorem ucf101_flip_by_virtual_row:
  "ucf101_flip_decision virtual_row N = (if virtual_row < N then even virtual_row
                                          else odd virtual_row)
   \<and> ucf101_flip_item ds virtual_row current =
       (if ucf_double_with_flipped ds
           \<and> (if virtual_row < ucf_real_dataset_size ds then even virtual_row
               else odd virtual_row)
        then map flip_frame current else current)
   \<and> ucf101_flip_decision 2 5 \<and> ucf101_flip_decision 7 5"
  by (simp add: ucf101_flip_item_def flip_decision_parity)

theorem ucf101_flip_by_virtual_row_witness:
  "ucf101_flip_decision 4 5 \<and> \<not> ucf101_flip_decision 3 5
   \<and> \<not> ucf101_flip_decision 6 5 \<and> ucf101_flip_decision 9 5"
  using ucf101_flip_by_virtual_row [of 4 5] ucf101_flip_by_virtual_row [of 3 5]
    ucf101_flip_by_virtual_row [of 6 5] ucf101_flip_by_virtual_row [of 9 5]
  by simp

text \<open>
  Claim C5 as stated fails: it has the even virtual rows below \<open>N\<close> unflipped, but with
  \<open>N = 5\<close> the item at virtual row 2 is flipped.
\<close>

theorem ucf101_flip_virtual_row_2_counterexample:
  "ucf101_flip_decision 2 5
   \<and> ucf101_flip_item
        \<lparr>ucf_file_name_list = [], ucf_real_dataset_size = 5, ucf_indices = [0, 1, 2, 3, 4],
         ucf_row = 0, ucf_dataset_size = 10, ucf_serialized_sequence_length = 1,
         ucf_double_with_flipped = True, ucf_crop_size = None,
         ucf_skip_less_movement = False, ucf_data_img_size = (1, 2, 1),
         ucf_input_seq_length = 1, ucf_target_seq_length = 0\<rparr>
        2 [[[[10], [20]]]] = [[[[20], [10]]]]"
  by (simp add: ucf101_flip_item_def ucf101_flip_decision_def flip_frame_def)

text \<open>
  Claim C9. For a crop size \<open>(crop_h, crop_w)\<close> strictly smaller than the frame size
  \<open>(H, W)\<close>, the offsets drawn by \<^verbatim>\<open>random.randint(0, H - crop_h)\<close> and
  \<^verbatim>\<open>random.randint(0, W - crop_w)\<close> (the draws of both loaders, with \<open>H\<close> and \<open>W\<close> the
  frame constants of Ms. Pac-Man or the image size of UCF-101) put the crop window inside
  \<open>[0, H) \<times> [0, W)\<close>: the crop of every \<open>H \<times> W\<close> frame of a sequence has the full crop size,
  and each of its pixels is the pixel of the frame at the offset position.
\<close>

theorem crop_window_in_bounds:
  assumes "crop_h < H" and "crop_w < W"
    and "randint 0 (int H - int crop_h) gy = Inr (offset_y, gy')"
    and "randint 0 (int W - int crop_w) gx = Inr (offset_x, gx')"
    and "list_all (frame_shape_ok H W C) frames"
  shows "{offset_y ..< offset_y + int crop_h} \<subseteq> {0 ..< int H}
       \<and> {offset_x ..< offset_x + int crop_w} \<subseteq> {0 ..< int W}
       \<and> list_all (frame_shape_ok crop_h crop_w C)
             (map (crop_frame offset_y offset_x (int crop_h) (int crop_w)) frames)
       \<and> (\<forall>f \<in> set frames. \<forall>i < crop_h. \<forall>j < crop_w.
             crop_frame offset_y offset_x (int crop_h) (int crop_w) f ! i ! j
               = f ! (nat offset_y + i) ! (nat offset_x + j))"
proof -
  have y: "0 \<le> offset_y" "offset_y + int crop_h \<le> int H"
    using randint_range [OF assms(3)] by simp_all
  have x: "0 \<le> offset_x" "offset_x + int crop_w \<le> int W"
    using randint_range [OF assms(4)] by simp_all
  have ok: "\<And>f. f \<in> set frames \<Longrightarrow> frame_shape_ok H W C f"
    using assms(5) by (simp add: list_all_iff)
  show ?thesis
    using x y
    by (auto simp: list_all_iff intro: crop_frame_shape [OF ok] crop_frame_nth [OF ok])
qed

theorem crop_window_in_bounds_witness:
  "list_all (frame_shape_ok 2 2 1)
     (map (crop_frame 1 1 2 2) [[[[1], [2], [3]], [[4], [5], [6]], [[7], [8], [9 :: 8 word]]]])
   \<and> crop_frame 1 1 2 2 [[[1], [2], [3]], [[4], [5], [6]], [[7], [8], [9 :: 8 word]]] ! 1 ! 1
       = [[[1], [2], [3]], [[4], [5], [6]], [[7], [8], [9]]] ! 2 ! 2
   \<and> {1 ..< 1 + int 2} \<subseteq> {0 ..< int 3}"
proof -
  have a: "(2::nat) < 3" by simp
  have r: "randint 0 (int 3 - int 2) (\<lambda>_. 1) = Inr (1, (\<lambda>_. 1))"
    by (simp add: randint_def comp_def)
  have s: "list_all (frame_shape_ok 3 3 1)
             [[[[1], [2], [3]], [[4], [5], [6]], [[7], [8], [9 :: 8 word]]]]"
    by (simp add: frame_shape_ok_def)
  note t = crop_window_in_bounds [OF a a r r s]
  have el: "crop_frame 1 1 (int 2) (int 2)
              [[[1], [2], [3]], [[4], [5], [6]], [[7], [8], [9 :: 8 word]]] ! 1 ! 1
            = [[[1], [2], [3]], [[4], [5], [6]], [[7], [8], [9]]] ! (nat 1 + 1) ! (nat 1 + 1)"
    by (rule t [THEN conjunct2, THEN conjunct2, THEN conjunct2, rule_format]) simp_all
  show ?thesis
    using t [THEN conjunct1] t [THEN conjunct2, THEN conjunct2, THEN conjunct1] el
    by simp
qed

section \<open>The retry loop of Ms. Pac-Man\<close>














lemma flip_frame_shape: "frame_shape_ok h w c f \<Longrightarrow> frame_shape_ok h w c (flip_frame f)"
  by (auto simp: frame_shape_ok_def flip_frame_def list_all_iff)

lemma draw_offsets_range:
  "ms_pacman_draw_offsets ds g = Inr (oy, ox, g1) \<Longrightarrow>
     (case mp_crop_size ds of
        None \<Rightarrow> oy = 0 \<and> ox = 0
      | Some (ch, cw) \<Rightarrow> 0 \<le> oy \<and> oy + int ch \<le> int FRAME_HEIGHT
                         \<and> 0 \<le> ox \<and> ox + int cw \<le> int FRAME_WIDTH)"
  by (auto simp: ms_pacman_draw_offsets_def split: option.splits sum.splits dest!: randint_range)

lemma draw_offsets_total:
  "ms_pacman_crop_fits ds \<Longrightarrow> \<exists>oy ox g1. ms_pacman_draw_offsets ds g = Inr (oy, ox, g1)"
  by (auto simp: ms_pacman_draw_offsets_def ms_pacman_crop_fits_def randint_def
      split: option.splits)

lemma write_frame_total:
  assumes "frame_shape_ok FRAME_HEIGHT FRAME_WIDTH FRAME_CHANNELS f"
    and "ms_pacman_draw_offsets ds g = Inr (oy, ox, g1)"
  shows "\<exists>w. ms_pacman_write_frame ds oy ox fl f = Inr w"
proof (cases "mp_crop_size ds")
  case None
  then show ?thesis
    using assms(1)
    by (simp add: ms_pacman_write_frame_def ms_pacman_slot_dims_def flip_frame_shape Let_def)
next
  case (Some cs)
  obtain ch cw where cs: "cs = (ch, cw)" by (cases cs)
  from draw_offsets_range [OF assms(2)]
  have "0 \<le> oy" "oy + int ch \<le> int FRAME_HEIGHT" "0 \<le> ox" "ox + int cw \<le> int FRAME_WIDTH"
    by (simp_all add: Some cs)
  from crop_frame_shape [OF assms(1) this]
  show ?thesis
    by (simp add: ms_pacman_write_frame_def ms_pacman_slot_dims_def Some cs flip_frame_shape
        Let_def)
qed

lemma process_inputs_total:
  assumes "list_all (frame_shape_ok FRAME_HEIGHT FRAME_WIDTH FRAME_CHANNELS) frames"
    and "ms_pacman_draw_offsets ds g = Inr (oy, ox, g1)"
  shows "\<exists>ws. ms_pacman_process_inputs ds oy ox fl frames = Inr ws"
  using assms(1)
proof (induction frames)
  case Nil
  then show ?case by simp
next
  case (Cons f rest)
  then obtain w ws where "ms_pacman_write_frame ds oy ox fl f = Inr w"
    "ms_pacman_process_inputs ds oy ox fl rest = Inr ws"
    using write_frame_total [OF _ assms(2), of f fl] by auto
  then show ?case by simp
qed

lemma py_index_nth: "i < length xs \<Longrightarrow> py_index xs (int i) = Inr (xs ! i)"
  by (simp add: py_index_def)

lemma read_frames_total:
  assumes "ms_pacman_seq_ok ds fsys cs" and "\<forall>i \<in> set idx. i < length (snd (snd cs))"
  shows "\<exists>frames. read_frames fsys cs idx = Inr frames
           \<and> list_all (frame_shape_ok FRAME_HEIGHT FRAME_WIDTH FRAME_CHANNELS) frames"
  using assms(2)
proof (induction idx)
  case Nil
  then show ?case by simp
next
  case (Cons i rest)
  then have i: "i < length (snd (snd cs))" by simp
  then have "snd (snd cs) ! i \<in> set (snd (snd cs))" by simp
  with assms(1) obtain f where
    f: "fsys (os_path_join (fst cs) (snd (snd cs) ! i)) = Some f"
       "frame_shape_ok FRAME_HEIGHT FRAME_WIDTH FRAME_CHANNELS f"
    by (auto simp: ms_pacman_seq_ok_def list_all_iff split: option.splits)
  from Cons obtain frames where "read_frames fsys cs rest = Inr frames"
    "list_all (frame_shape_ok FRAME_HEIGHT FRAME_WIDTH FRAME_CHANNELS) frames"
    by auto
  then show ?case using f by (simp add: py_index_nth [OF i])
qed

lemma process_targets_total:
  assumes "ms_pacman_seq_ok ds fsys cs" and "\<forall>i \<in> set idx. i < length (snd (snd cs))"
    and "ms_pacman_draw_offsets ds g = Inr (oy, ox, g1)"
  shows "\<exists>ws. ms_pacman_process_targets ds fsys cs oy ox fl idx = Inr ws"
  using assms(2)
proof (induction idx)
  case Nil
  then show ?case by simp
next
  case (Cons i rest)
  then have i: "i < length (snd (snd cs))" by simp
  then have "snd (snd cs) ! i \<in> set (snd (snd cs))" by simp
  with assms(1) obtain f where
    f: "fsys (os_path_join (fst cs) (snd (snd cs) ! i)) = Some f"
       "frame_shape_ok FRAME_HEIGHT FRAME_WIDTH FRAME_CHANNELS f"
    by (auto simp: ms_pacman_seq_ok_def list_all_iff split: option.splits)
  from write_frame_total [OF f(2) assms(3)] obtain w where
    "ms_pacman_write_frame ds oy ox fl f = Inr w" by blast
  moreover from Cons obtain ws where
    "ms_pacman_process_targets ds fsys cs oy ox fl rest = Inr ws" by auto
  ultimately show ?case using f(1) by (simp add: py_index_nth [OF i])
qed

lemma retry_loop_total:
  assumes "ms_pacman_crop_fits ds" and "ms_pacman_seq_ok ds fsys cs"
    and "list_all (frame_shape_ok FRAME_HEIGHT FRAME_WIDTH FRAME_CHANNELS) input_frames"
    and "start + (mp_input_seq_length ds + mp_target_seq_length ds) \<le> length (snd (snd cs))"
  shows "\<exists>r. ms_pacman_retry_loop ds fsys cs start input_frames retries do_flip slot g = Inr r"
proof (induction retries arbitrary: do_flip slot g)
  case Nil
  show ?case by simp
next
  case (Cons retry rest)
  from draw_offsets_total [OF assms(1)] obtain oy ox g1 where
    d: "ms_pacman_draw_offsets ds g = Inr (oy, ox, g1)" by blast
  define fl where "fl = (if ms_pacman_hud_visible ds oy then False else do_flip)"
  from process_inputs_total [OF assms(3) d] obtain written where
    w: "ms_pacman_process_inputs ds oy ox fl input_frames = Inr written" by blast
  have "\<forall>i \<in> set [start + mp_input_seq_length ds
                    ..< start + (mp_input_seq_length ds + mp_target_seq_length ds)].
          i < length (snd (snd cs))"
    using assms(4) by auto
  from process_targets_total [OF assms(2) this d] obtain targets where
    t: "ms_pacman_process_targets ds fsys cs oy ox fl
          [start + mp_input_seq_length ds
            ..< start + (mp_input_seq_length ds + mp_target_seq_length ds)] = Inr targets"
    by blast
  from Cons [of fl "(written, snd slot)" g1] obtain r where
    r: "ms_pacman_retry_loop ds fsys cs start input_frames rest fl (written, snd slot) g1 = Inr r"
    by blast
  obtain s' g' atts where r': "r = (s', g', atts)" by (cases r)
  show ?case
    unfolding ms_pacman_retry_loop.simps d sum.case prod.case Let_def fl_def [symmetric]
      w t r r'
    by (simp add: Let_def)
qed


lemma sample_item_total:
  assumes "ms_pacman_crop_fits ds" and "seq_index < length (mp_data ds)"
    and "ms_pacman_seq_ok ds fsys (mp_data ds ! seq_index)"
  shows "\<exists>r. ms_pacman_sample_item ds fsys seq_index slot g = Inr r"
proof -
  define cs where "cs = mp_data ds ! seq_index"
  define total where "total = mp_input_seq_length ds + mp_target_seq_length ds"
  have ok: "ms_pacman_seq_ok ds fsys cs" using assms(3) by (simp add: cs_def)
  then have cnt: "total \<le> fst (snd cs)" "fst (snd cs) \<le> length (snd (snd cs))"
    by (simp_all add: ms_pacman_seq_ok_def total_def)
  have idx: "py_index (mp_data ds) (int seq_index) = Inr cs"
    using assms(2) by (simp add: py_index_nth cs_def)
  obtain start_idx g1 where
    ri: "randint 0 (int (fst (snd cs)) - int total) g = Inr (start_idx, g1)"
    using cnt(1) by (simp add: randint_def)
  from randint_range [OF ri] have st: "0 \<le> start_idx" "start_idx \<le> int (fst (snd cs)) - int total"
    by simp_all
  then have bound: "nat start_idx + total \<le> length (snd (snd cs))"
    using cnt by linarith
  obtain do_flip g2 where
    fl: "(if mp_random_flip ds
          then (case random_random g1 of (r, g') \<Rightarrow> (r > 1 / 2, g'))
          else (False, g1)) = (do_flip, g2)"
    by (cases "if mp_random_flip ds
          then (case random_random g1 of (r, g') \<Rightarrow> (r > 1 / 2, g'))
          else (False, g1)") auto
  have "\<forall>i \<in> set [nat start_idx ..< nat start_idx + mp_input_seq_length ds].
          i < length (snd (snd cs))"
    using bound by (auto simp: total_def)
  from read_frames_total [OF ok this] obtain input_frames where
    rf: "read_frames fsys cs [nat start_idx ..< nat start_idx + mp_input_seq_length ds]
           = Inr input_frames"
    and sh: "list_all (frame_shape_ok FRAME_HEIGHT FRAME_WIDTH FRAME_CHANNELS) input_frames"
    by blast
  from retry_loop_total [OF assms(1) ok sh bound [unfolded total_def]]
  obtain r where "ms_pacman_retry_loop ds fsys cs (nat start_idx) input_frames [0..<MAX_TRIES]
                    do_flip slot g2 = Inr r"
    by blast
  then show ?thesis
    unfolding ms_pacman_sample_item_def Let_def idx sum.case
      ri [unfolded total_def] prod.case fl rf
    by blast
qed











section \<open>The Ms. Pac-Man dataset keeps no cursor\<close>

lemma cursor_draw_offsets:
  "ms_pacman_draw_offsets (ds\<lparr>mp_row := r, mp_indices := p\<rparr>) g = ms_pacman_draw_offsets ds g"
  by (simp add: ms_pacman_draw_offsets_def)

lemma cursor_hud_visible:
  "ms_pacman_hud_visible (ds\<lparr>mp_row := r, mp_indices := p\<rparr>) oy = ms_pacman_hud_visible ds oy"
  by (simp add: ms_pacman_hud_visible_def)

lemma cursor_write_frame:
  "ms_pacman_write_frame (ds\<lparr>mp_row := r, mp_indices := p\<rparr>) oy ox fl f
     = ms_pacman_write_frame ds oy ox fl f"
  by (simp add: ms_pacman_write_frame_def ms_pacman_slot_dims_def)

lemma cursor_process_inputs:
  "ms_pacman_process_inputs (ds\<lparr>mp_row := r, mp_indices := p\<rparr>) oy ox fl frames
     = ms_pacman_process_inputs ds oy ox fl frames"
  by (induction frames) (simp_all add: cursor_write_frame cong: sum.case_cong)

lemma cursor_process_targets:
  "ms_pacman_process_targets (ds\<lparr>mp_row := r, mp_indices := p\<rparr>) fsys cs oy ox fl idx
     = ms_pacman_process_targets ds fsys cs oy ox fl idx"
  by (induction idx) (simp_all add: cursor_write_frame cong: sum.case_cong option.case_cong)

lemma cursor_retry_loop:
  "ms_pacman_retry_loop (ds\<lparr>mp_row := r, mp_indices := p\<rparr>) fsys cs start input_frames
       retries do_flip slot g
     = ms_pacman_retry_loop ds fsys cs start input_frames retries do_flip slot g"
proof (induction retries arbitrary: do_flip slot g)
  case Nil
  show ?case by simp
next
  case (Cons retry rest)
  show ?case
    unfolding ms_pacman_retry_loop.simps cursor_draw_offsets cursor_hud_visible
      cursor_process_inputs cursor_process_targets Cons
    by (simp add: Let_def cong: sum.case_cong prod.case_cong if_cong)
qed

lemma cursor_sample_item:
  "ms_pacman_sample_item (ds\<lparr>mp_row := r, mp_indices := p\<rparr>) fsys seq_index slot g
     = ms_pacman_sample_item ds fsys seq_index slot g"
  unfolding ms_pacman_sample_item_def cursor_retry_loop
  by (simp add: Let_def cong: sum.case_cong prod.case_cong if_cong)

lemma cursor_sample_items:
  "ms_pacman_sample_items (ds\<lparr>mp_row := r, mp_indices := p\<rparr>) fsys todo g
     = ms_pacman_sample_items ds fsys todo g"
  by (induction todo arbitrary: g)
     (auto simp: cursor_sample_item cong: sum.case_cong prod.case_cong)

lemma ms_pacman_sample_items_total:
  assumes "ms_pacman_crop_fits ds"
    and "\<forall>cs \<in> set (mp_data ds). ms_pacman_seq_ok ds fsys cs"
  shows "\<forall>t \<in> set todo. fst t < length (mp_data ds) \<Longrightarrow>
           \<exists>r. ms_pacman_sample_items ds fsys todo g = Inr r"
proof (induction todo arbitrary: g)
  case Nil
  show ?case by simp
next
  case (Cons t todo)
  obtain seq_index slot where t: "t = (seq_index, slot)" by (cases t)
  have i: "seq_index < length (mp_data ds)" using Cons.prems by (simp add: t)
  then have "ms_pacman_seq_ok ds fsys (mp_data ds ! seq_index)" using assms(2) by simp
  from sample_item_total [OF assms(1) i this] obtain item g1 atts where
    s: "ms_pacman_sample_item ds fsys seq_index slot g = Inr (item, g1, atts)"
    by (metis prod_cases3)
  have "\<forall>t \<in> set todo. fst t < length (mp_data ds)" using Cons.prems by simp
  from Cons.IH [OF this, of g1] obtain r where
    "ms_pacman_sample_items ds fsys todo g1 = Inr r" by blast
  then show ?case by (cases r) (simp add: t s)
qed

lemma ms_pacman_get_batch_total:
  assumes "ms_pacman_crop_fits ds"
    and "\<forall>cs \<in> set (mp_data ds). ms_pacman_seq_ok ds fsys cs"
    and "0 < mp_true_dataset_size ds" and "mp_true_dataset_size ds \<le> length (mp_data ds)"
    and "0 \<le> batch_size"
  shows "\<exists>inputs targets np_g' py_g'.
           ms_pacman_get_batch rnd ds batch_size fsys empty_inputs empty_targets np_g py_g
             = Inr ((inputs, targets), ds, np_g', py_g')"
proof -
  define seq_indices where
    "seq_indices = map (\<lambda>k. np_g k mod mp_true_dataset_size ds) [0..<nat batch_size]"
  have ch: "np_random_choice (mp_true_dataset_size ds) batch_size np_g
              = Inr (seq_indices, (\<lambda>k. np_g (k + nat batch_size)))"
    using assms(3,5) by (simp add: np_random_choice_def seq_indices_def)
  have "\<forall>t \<in> set (map (\<lambda>batch. (seq_indices ! batch, empty_inputs batch, empty_targets batch))
                      [0..<nat batch_size]). fst t < length (mp_data ds)"
    using assms(3,4) by (auto simp: seq_indices_def intro: less_le_trans [OF mod_less_divisor])
  from ms_pacman_sample_items_total [OF assms(1,2) this] obtain items py_g' where
    "ms_pacman_sample_items ds fsys
       (map (\<lambda>batch. (seq_indices ! batch, empty_inputs batch, empty_targets batch))
          [0..<nat batch_size]) py_g = Inr (items, py_g')"
    by (metis surj_pair)
  then show ?thesis by (simp add: ms_pacman_get_batch_def ch)
qed

text \<open>
  Claim C10. \<open>reset\<close> of the Ms. Pac-Man dataset changes nothing. \<open>get_batch\<close> returns
  the dataset as it was, every field of it, and what it returns does not depend on the row
  cursor or the index permutation of the dataset: it neither reads nor advances them. The
  sequence indices of a call are read off the numpy generator alone, one draw for each
  item, each below the true size of the dataset.
\<close>

theorem ms_pacman_no_cursor:
  "ms_pacman_reset ds = ds
   \<and> (\<forall>arrays ds' np_g' py_g'.
         ms_pacman_get_batch rnd ds batch_size fsys empty_inputs empty_targets np_g py_g
           = Inr (arrays, ds', np_g', py_g')
         \<longrightarrow> ds' = ds)
   \<and> ms_pacman_get_batch rnd (ds\<lparr>mp_row := r, mp_indices := p\<rparr>) batch_size fsys
         empty_inputs empty_targets np_g py_g
       = map_sum id (\<lambda>(arrays, ds', gs). (arrays, ds'\<lparr>mp_row := r, mp_indices := p\<rparr>, gs))
           (ms_pacman_get_batch rnd ds batch_size fsys empty_inputs empty_targets np_g py_g)
   \<and> (\<forall>seq_indices np_g'.
         np_random_choice (mp_true_dataset_size ds) batch_size np_g = Inr (seq_indices, np_g')
         \<longrightarrow> seq_indices = map (\<lambda>k. np_g k mod mp_true_dataset_size ds) [0..<nat batch_size]
             \<and> (\<forall>i \<in> set seq_indices. i < mp_true_dataset_size ds))"
proof (intro conjI)
  show "ms_pacman_reset ds = ds" by (simp add: ms_pacman_reset_def)
  show "\<forall>arrays ds' np_g' py_g'.
         ms_pacman_get_batch rnd ds batch_size fsys empty_inputs empty_targets np_g py_g
           = Inr (arrays, ds', np_g', py_g')
         \<longrightarrow> ds' = ds"
    by (auto simp: ms_pacman_get_batch_def split: sum.splits prod.splits)
  show "ms_pacman_get_batch rnd (ds\<lparr>mp_row := r, mp_indices := p\<rparr>) batch_size fsys
         empty_inputs empty_targets np_g py_g
       = map_sum id (\<lambda>(arrays, ds', gs). (arrays, ds'\<lparr>mp_row := r, mp_indices := p\<rparr>, gs))
           (ms_pacman_get_batch rnd ds batch_size fsys empty_inputs empty_targets np_g py_g)"
    unfolding ms_pacman_get_batch_def cursor_sample_items
    by (simp split: sum.splits prod.splits cong: sum.case_cong prod.case_cong)
  show "\<forall>seq_indices np_g'.
         np_random_choice (mp_true_dataset_size ds) batch_size np_g = Inr (seq_indices, np_g')
         \<longrightarrow> seq_indices = map (\<lambda>k. np_g k mod mp_true_dataset_size ds) [0..<nat batch_size]
             \<and> (\<forall>i \<in> set seq_indices. i < mp_true_dataset_size ds)"
    by (auto simp: np_random_choice_def split: if_splits)
qed

theorem ms_pacman_no_cursor_witness:
  "ms_pacman_reset
     \<lparr>mp_data_dir = ''d'', mp_data = [(''/d/1'', 2, [''0.png'', ''1.png''])],
      mp_crop_size = Some (40, 40), mp_repetitions_per_epoche = 256,
      mp_skip_less_movement = True, mp_random_flip = True, mp_true_dataset_size = 1,
      mp_input_seq_length = 1, mp_target_seq_length = 1, mp_dataset_size = 256,
      mp_row = 7, mp_indices = [3, 1, 2]\<rparr>
   = \<lparr>mp_data_dir = ''d'', mp_data = [(''/d/1'', 2, [''0.png'', ''1.png''])],
      mp_crop_size = Some (40, 40), mp_repetitions_per_epoche = 256,
      mp_skip_less_movement = True, mp_random_flip = True, mp_true_dataset_size = 1,
      mp_input_seq_length = 1, mp_target_seq_length = 1, mp_dataset_size = 256,
      mp_row = 7, mp_indices = [3, 1, 2]\<rparr>
   \<and> (\<exists>arrays ds' gs.
        ms_pacman_get_batch (\<lambda>x. x)
          \<lparr>mp_data_dir = ''d'', mp_data = [(''/d/1'', 2, [''0.png'', ''1.png''])],
           mp_crop_size = Some (40, 40), mp_repetitions_per_epoche = 256,
           mp_skip_less_movement = True, mp_random_flip = True, mp_true_dataset_size = 1,
           mp_input_seq_length = 1, mp_target_seq_length = 1, mp_dataset_size = 256,
           mp_row = 7, mp_indices = [3, 1, 2]\<rparr>
          2 (\<lambda>p. Some (replicate 210 (replicate 160 [0, 51, 255]))) (\<lambda>_. []) (\<lambda>_. [])
          (\<lambda>_. 0) (\<lambda>_. 0) = Inr (arrays, ds', gs)
        \<and> mp_row ds' = 7 \<and> mp_indices ds' = [3, 1, 2])"
proof -
  define mds where "mds =
     \<lparr>mp_data_dir = ''d'', mp_data = [(''/d/1'', 2, [''0.png'', ''1.png''])],
      mp_crop_size = Some (40, 40), mp_repetitions_per_epoche = 256,
      mp_skip_less_movement = True, mp_random_flip = True, mp_true_dataset_size = 1,
      mp_input_seq_length = 1, mp_target_seq_length = 1, mp_dataset_size = 256,
      mp_row = 7, mp_indices = [3, 1, 2]\<rparr>"
  define mfs :: "string \<rightharpoonup> frame"
    where "mfs = (\<lambda>p. Some (replicate 210 (replicate 160 [0, 51, 255])))"
  note t = ms_pacman_no_cursor [of mds "\<lambda>x. x" 2 mfs "\<lambda>_. []" "\<lambda>_. []" "\<lambda>_. 0" "\<lambda>_. 0"]
  have wf: "ms_pacman_crop_fits mds" "\<forall>cs \<in> set (mp_data mds). ms_pacman_seq_ok mds mfs cs"
    "0 < mp_true_dataset_size mds" "mp_true_dataset_size mds \<le> length (mp_data mds)"
    "(0::int) \<le> 2"
    by (simp_all add: mds_def mfs_def ms_pacman_crop_fits_def ms_pacman_seq_ok_def
        frame_shape_ok_def list_all_iff FRAME_HEIGHT_def FRAME_WIDTH_def FRAME_CHANNELS_def)
  from ms_pacman_get_batch_total [OF wf] obtain inputs targets np_g' py_g' where
    m: "ms_pacman_get_batch (\<lambda>x. x) mds 2 mfs (\<lambda>_. []) (\<lambda>_. []) (\<lambda>_. 0) (\<lambda>_. 0)
          = Inr ((inputs, targets), mds, np_g', py_g')"
    by blast
  have "mp_row mds = 7" "mp_indices mds = [3, 1, 2]" by (simp_all add: mds_def)
  with t m have "ms_pacman_reset mds = mds
     \<and> (\<exists>arrays ds' gs.
          ms_pacman_get_batch (\<lambda>x. x) mds 2 mfs (\<lambda>_. []) (\<lambda>_. []) (\<lambda>_. 0) (\<lambda>_. 0)
            = Inr (arrays, ds', gs)
          \<and> mp_row ds' = 7 \<and> mp_indices ds' = [3, 1, 2])"
    by blast
  then show ?thesis unfolding mds_def mfs_def .
qed

section \<open>The batch output contract\<close>





























end
